theory Spec2Isabelle
  imports Complex_Main
begin

section \<open>The grid tool of \<^verbatim>\<open>src/QGIS/subset-polygon.py\<close>\<close>

text \<open>
  The script holds one algorithm, \<^verbatim>\<open>BoundingBoxDivider.processAlgorithm\<close>: for every
  feature of the input layer it cuts the feature's bounding box into square cells and
  adds one rectangle feature per cell to the output sink.

  Modelling conventions.
  \<^item> Python's \<^verbatim>\<open>float\<close> is modelled by \<^typ>\<open>real\<close>: every operation is exact, so the
    rounding error of IEEE doubles, infinities and NaN are outside the model. Python's
    \<^verbatim>\<open>int\<close> is \<^typ>\<open>int\<close>.
  \<^item> An exception is a value: the run returns \<open>Inl e\<close> together with the state reached,
    since features already added to the sink stay there.
  \<^item> The host (QGIS) enters through parameters: what \<^verbatim>\<open>parameterAsSource\<close> and
    \<^verbatim>\<open>parameterAsSink\<close> hand back, the answers of \<^verbatim>\<open>feedback.isCanceled()\<close>, and the
    distance \<^verbatim>\<open>QgsDistanceArea.measureLine\<close> returns.
\<close>

subsection \<open>Values, fields, features\<close>

text \<open>A Python value stored in an attribute: \<^verbatim>\<open>None\<close>, an int, a float or a string.\<close>

datatype pyvalue = PyNone | PyInt int | PyFloat real | PyStr string

text \<open>The \<^verbatim>\<open>QVariant\<close> type tags the script uses, and any other tag an input field has.\<close>

datatype qvariant_type = QVariant_Int | QVariant_String | QVariant_Double | QVariant_Other nat

record qgsfield =
  fname :: string
  ftype :: qvariant_type

text \<open>\<^verbatim>\<open>QgsRectangle\<close>: the four numbers given to its constructor, in the constructor's order.\<close>

record qgsrectangle =
  xMinimum :: real
  yMinimum :: real
  xMaximum :: real
  yMaximum :: real

text \<open>
  An input feature, as far as the script can see it: the bounding box of its geometry and
  its attribute values (one per field of the source).
\<close>

record input_feature =
  boundingBox :: qgsrectangle
  in_attributes :: "pyvalue list"

text \<open>What \<^verbatim>\<open>parameterAsSource\<close> returns when it returns a source.\<close>

record feature_source =
  src_fields :: "qgsfield list"
  src_features :: "input_feature list"

text \<open>
  An output feature: \<^verbatim>\<open>QgsFeature(fields)\<close> after \<^verbatim>\<open>setGeometry\<close> and
  \<^verbatim>\<open>setAttributes\<close>. The geometry is the rectangle \<^verbatim>\<open>QgsGeometry.fromRect\<close> was given.
\<close>

record qgsfeature =
  f_fields :: "qgsfield list"
  f_geometry :: qgsrectangle
  f_attributes :: "pyvalue list"

text \<open>
  The parameters of one run: \<open>INPUT\<close> is the source (\<open>None\<close> when \<^verbatim>\<open>parameterAsSource\<close>
  returns \<^verbatim>\<open>None\<close>), \<open>COLUMNS\<close> the integer of \<^verbatim>\<open>parameterAsInt\<close>, \<open>OUTPUT\<close> the
  \<^verbatim>\<open>dest_id\<close> of the sink (\<open>None\<close> when \<^verbatim>\<open>parameterAsSink\<close> returns no sink).
\<close>

record parameters =
  INPUT :: "feature_source option"
  COLUMNS :: int
  OUTPUT :: "string option"

text \<open>
  The exceptions a run can end with. Lines 90 and 112 read
  \<^verbatim>\<open>raise QgsProcessingException(...)\<close>, but the import list of lines 42 to 52 does not
  bind the name \<^verbatim>\<open>QgsProcessingException\<close>, so evaluating the operand of \<^verbatim>\<open>raise\<close>
  ends in Python's \<^verbatim>\<open>NameError\<close> for that name. A float or int division by zero is
  \<^verbatim>\<open>ZeroDivisionError\<close>.
\<close>

datatype error = NameError string | ZeroDivisionError

text \<open>
  The state a run threads through: the features added to the sink (in order), the calls
  of \<^verbatim>\<open>measureLine\<close> made so far (the points given and the distance returned), the number
  of times \<^verbatim>\<open>feedback.isCanceled()\<close> was asked, the last value given to
  \<^verbatim>\<open>feedback.setProgress\<close>, and the two counters \<^verbatim>\<open>cell_id\<close> and \<^verbatim>\<open>current\<close> the
  loops carry.
\<close>

record state =
  sink :: "qgsfeature list"
  measured :: "((real \<times> real) list \<times> real) list"
  polls :: nat
  progress :: "real option"
  cell_id :: int
  current :: int

definition initial_state :: state where
  "initial_state =
     \<lparr>sink = [], measured = [], polls = 0, progress = None, cell_id = 0, current = 0\<rparr>"

subsection \<open>Python and host primitives\<close>

text \<open>\<^verbatim>\<open>range(n)\<close> for an int \<open>n\<close>: empty when \<open>n \<le> 0\<close>.\<close>

definition range_py :: "int \<Rightarrow> int list" where
  "range_py n = map int [0..<nat n]"

text \<open>
  \<^verbatim>\<open>round(x, n)\<close> on a float, over the reals: the nearest multiple of \<open>10^-n\<close>, a tie going
  to the even one.
\<close>

definition round_half_even :: "real \<Rightarrow> int" where
  "round_half_even y =
     (let f = \<lfloor>y\<rfloor>; d = y - of_int f
      in if d < 1 / 2 then f else if 1 / 2 < d then f + 1 else if even f then f else f + 1)"

definition py_round :: "real \<Rightarrow> nat \<Rightarrow> real" where
  "py_round x n = of_int (round_half_even (x * 10 ^ n)) / 10 ^ n"

text \<open>The format \<^verbatim>\<open>{v:02d}\<close>: decimal digits, zero-padded to width 2, the sign counted.\<close>

definition digit_char :: "nat \<Rightarrow> char" where
  "digit_char d = ''0123456789'' ! d"

fun dec_digits :: "nat \<Rightarrow> string" where
  "dec_digits n =
     (if n < 10 then [digit_char n] else dec_digits (n div 10) @ [digit_char (n mod 10)])"

definition zfill :: "nat \<Rightarrow> string \<Rightarrow> string" where
  "zfill w s = replicate (w - length s) (CHR ''0'') @ s"

definition fmt_02d :: "int \<Rightarrow> string" where
  "fmt_02d v =
     (if v < 0 then ''-'' @ zfill 1 (dec_digits (nat (- v))) else zfill 2 (dec_digits (nat v)))"

text \<open>
  \<^verbatim>\<open>QgsFields.append\<close> of the host library: a field whose name is already present is
  refused, any other is added at the end.
\<close>

definition append_field :: "qgsfield list \<Rightarrow> qgsfield \<Rightarrow> qgsfield list" where
  "append_field fs f = (if fname f \<in> set (map fname fs) then fs else fs @ [f])"

text \<open>\<^verbatim>\<open>attrs.get(name, None)\<close> on a dictionary written as a list of pairs.\<close>

definition dict_get :: "(string \<times> pyvalue) list \<Rightarrow> string \<Rightarrow> pyvalue" where
  "dict_get attrs name = (case map_of attrs name of Some v \<Rightarrow> v | None \<Rightarrow> PyNone)"


subsection \<open>\<^verbatim>\<open>processAlgorithm\<close>\<close>

text \<open>Lines 93 to 101: the output fields.\<close>

definition new_fields :: "qgsfield list" where
  "new_fields =
     [\<lparr>fname = ''cell_id'', ftype = QVariant_Int\<rparr>,
      \<lparr>fname = ''cell_name'', ftype = QVariant_String\<rparr>,
      \<lparr>fname = ''row'', ftype = QVariant_Int\<rparr>,
      \<lparr>fname = ''col'', ftype = QVariant_Int\<rparr>,
      \<lparr>fname = ''center_lat'', ftype = QVariant_Double\<rparr>,
      \<lparr>fname = ''center_lon'', ftype = QVariant_Double\<rparr>,
      \<lparr>fname = ''buffer'', ftype = QVariant_Double\<rparr>,
      \<lparr>fname = ''notes'', ftype = QVariant_String\<rparr>]"

definition output_fields :: "feature_source \<Rightarrow> qgsfield list" where
  "output_fields source = foldl append_field (src_fields source) new_fields"

text \<open>
  The variables of one input feature's grid that the two loops read (\<open>out_fields\<close> is the
  script's \<^verbatim>\<open>fields\<close>).
\<close>

record grid =
  out_fields :: "qgsfield list"
  x_min :: real
  y_min :: real
  width_degrees :: real
  height_degrees :: real
  num_columns :: int
  total :: int

text \<open>Lines 155 to 194: the feature of the cell at \<open>row\<close>, \<open>col\<close> (0-based) with the given id.\<close>

definition cell_attrs :: "grid \<Rightarrow> int \<Rightarrow> int \<Rightarrow> int \<Rightarrow> (string \<times> pyvalue) list" where
  "cell_attrs g row col cid =
     (let cell_x_min = x_min g + of_int col * width_degrees g;
          cell_x_max = cell_x_min + width_degrees g;
          cell_y_min = y_min g + of_int row * height_degrees g;
          cell_y_max = cell_y_min + height_degrees g;
          center_x = (cell_x_min + cell_x_max) / 2;
          center_y = (cell_y_min + cell_y_max) / 2;
          buffer = width_degrees g / 2;
          cell_name = ''R'' @ fmt_02d (row + 1) @ ''C'' @ fmt_02d (col + 1)
      in [(''cell_id'', PyInt cid),
          (''cell_name'', PyStr cell_name),
          (''row'', PyInt (row + 1)),
          (''col'', PyInt (col + 1)),
          (''center_lat'', PyFloat (py_round center_y 6)),
          (''center_lon'', PyFloat (py_round center_x 6)),
          (''buffer'', PyFloat (py_round buffer 6)),
          (''notes'', PyStr '''')])"

definition cell_rect :: "grid \<Rightarrow> int \<Rightarrow> int \<Rightarrow> qgsrectangle" where
  "cell_rect g row col =
     (let cell_x_min = x_min g + of_int col * width_degrees g;
          cell_x_max = cell_x_min + width_degrees g;
          cell_y_min = y_min g + of_int row * height_degrees g;
          cell_y_max = cell_y_min + height_degrees g
      in \<lparr>xMinimum = cell_x_min, yMinimum = cell_y_min,
          xMaximum = cell_x_max, yMaximum = cell_y_max\<rparr>)"

definition make_feature :: "grid \<Rightarrow> int \<Rightarrow> int \<Rightarrow> int \<Rightarrow> qgsfeature" where
  "make_feature g row col cid =
     (let attrs = cell_attrs g row col cid;
          attribute_values = map (\<lambda>f. dict_get attrs (fname f)) (out_fields g)
      in \<lparr>f_fields = out_fields g, f_geometry = cell_rect g row col,
          f_attributes = attribute_values\<rparr>)"

text \<open>
  Lines 154 to 201, the loop over \<^verbatim>\<open>range(num_columns)\<close>: the feature is added to the
  sink, both counters go up by one and the progress is set. \<open>total\<close> is not zero here:
  the body runs only when both ranges are non-empty.
\<close>

fun col_loop :: "grid \<Rightarrow> int \<Rightarrow> int list \<Rightarrow> state \<Rightarrow> state" where
  "col_loop g row [] s = s"
| "col_loop g row (col # cols) s =
     col_loop g row cols
       (s\<lparr>sink := sink s @ [make_feature g row col (cell_id s)],
          cell_id := cell_id s + 1,
          current := current s + 1,
          progress := Some (100 * of_int (current s + 1) / of_int (total g))\<rparr>)"

text \<open>
  Lines 150 to 201, the loop over \<^verbatim>\<open>range(num_rows)\<close>: each row first asks
  \<^verbatim>\<open>feedback.isCanceled()\<close> and leaves the loop when the answer is yes. The answer to
  the \<open>k\<close>-th question of the run is \<open>isCanceled k\<close>.
\<close>

fun row_loop :: "(nat \<Rightarrow> bool) \<Rightarrow> grid \<Rightarrow> int list \<Rightarrow> state \<Rightarrow> state" where
  "row_loop isCanceled g [] s = s"
| "row_loop isCanceled g (row # rows) s =
     (if isCanceled (polls s) then s\<lparr>polls := Suc (polls s)\<rparr>
      else row_loop isCanceled g rows
             (col_loop g row (range_py (num_columns g)) (s\<lparr>polls := Suc (polls s)\<rparr>)))"

text \<open>
  Lines 116 to 201, the body of the loop over the input features. The division of line 124
  raises when \<^verbatim>\<open>num_columns\<close> is 0, the division of line 143 when \<^verbatim>\<open>height_degrees\<close> is
  0.0; by then \<^verbatim>\<open>measureLine\<close> has been called.
\<close>

definition process_feature ::
  "((real \<times> real) list \<Rightarrow> real) \<Rightarrow> (nat \<Rightarrow> bool) \<Rightarrow> qgsfield list \<Rightarrow> int \<Rightarrow>
     input_feature \<Rightarrow> state \<Rightarrow> (error + unit) \<times> state" where
  "process_feature measureLine isCanceled flds num_cols input_feature s =
     (let bbox = boundingBox input_feature;
          x_min = xMinimum bbox;
          y_min = yMinimum bbox;
          x_max = xMaximum bbox;
          y_max = yMaximum bbox
      in if num_cols = 0 then (Inl ZeroDivisionError, s)
         else
           let width_degrees = (x_max - x_min) / of_int num_cols;
               mid_lat = (y_max + y_min) / 2;
               point1 = (x_min, mid_lat);
               point2 = (x_min + width_degrees, mid_lat);
               width_meters = measureLine [point1, point2];
               s1 = s\<lparr>measured := measured s @ [([point1, point2], width_meters)]\<rparr>;
               height_degrees = \<bar>width_degrees\<bar>;
               total_height = y_max - y_min
           in if height_degrees = 0 then (Inl ZeroDivisionError, s1)
              else
                let num_rows = \<lceil>total_height / height_degrees\<rceil>;
                    g = \<lparr>out_fields = flds, x_min = x_min, y_min = y_min,
                         width_degrees = width_degrees, height_degrees = height_degrees,
                         num_columns = num_cols, total = num_rows * num_cols\<rparr>
                in (Inr (),
                    row_loop isCanceled g (range_py num_rows)
                      (s1\<lparr>cell_id := 1, current := 0\<rparr>)))"

text \<open>Line 115, the loop over \<^verbatim>\<open>source.getFeatures()\<close>: an exception ends it.\<close>

fun features_loop ::
  "((real \<times> real) list \<Rightarrow> real) \<Rightarrow> (nat \<Rightarrow> bool) \<Rightarrow> qgsfield list \<Rightarrow> int \<Rightarrow>
     input_feature list \<Rightarrow> state \<Rightarrow> (error + unit) \<times> state" where
  "features_loop measureLine isCanceled flds num_cols [] s = (Inr (), s)"
| "features_loop measureLine isCanceled flds num_cols (input_feature # rest) s =
     (case process_feature measureLine isCanceled flds num_cols input_feature s of
        (Inl e, s') \<Rightarrow> (Inl e, s')
      | (Inr u, s') \<Rightarrow> features_loop measureLine isCanceled flds num_cols rest s')"

text \<open>
  Lines 85 to 204. The result is the exception or the returned \<^verbatim>\<open>dest_id\<close>, with the
  state reached.
\<close>

definition processAlgorithm ::
  "((real \<times> real) list \<Rightarrow> real) \<Rightarrow> (nat \<Rightarrow> bool) \<Rightarrow> parameters \<Rightarrow> (error + string) \<times> state" where
  "processAlgorithm measureLine isCanceled params =
     (case INPUT params of
        None \<Rightarrow> (Inl (NameError ''QgsProcessingException''), initial_state)
      | Some source \<Rightarrow>
          (case OUTPUT params of
             None \<Rightarrow> (Inl (NameError ''QgsProcessingException''), initial_state)
           | Some dest_id \<Rightarrow>
               (case features_loop measureLine isCanceled (output_fields source)
                       (COLUMNS params) (src_features source) initial_state of
                  (Inl e, s) \<Rightarrow> (Inl e, s)
                | (Inr u, s) \<Rightarrow> (Inr dest_id, s))))"

subsection \<open>Notions for stating the properties\<close>

text \<open>
  The grid and the number of rows \<^verbatim>\<open>processAlgorithm\<close> computes for a bounding box
  (lines 118 to 147), as functions of the box, for the statements below.
\<close>

definition feature_grid :: "qgsfield list \<Rightarrow> int \<Rightarrow> qgsrectangle \<Rightarrow> grid" where
  "feature_grid flds num_cols bbox =
     (let w = (xMaximum bbox - xMinimum bbox) / of_int num_cols
      in \<lparr>out_fields = flds, x_min = xMinimum bbox, y_min = yMinimum bbox,
          width_degrees = w, height_degrees = \<bar>w\<bar>, num_columns = num_cols,
          total = \<lceil>(yMaximum bbox - yMinimum bbox) / \<bar>w\<bar>\<rceil> * num_cols\<rparr>)"

definition feature_rows :: "int \<Rightarrow> qgsrectangle \<Rightarrow> int" where
  "feature_rows num_cols bbox =
     \<lceil>(yMaximum bbox - yMinimum bbox) / \<bar>(xMaximum bbox - xMinimum bbox) / of_int num_cols\<bar>\<rceil>"

text \<open>
  A run carries a grid request (a bounding box and a column count) when the source is
  readable and holds exactly one feature, whose bounding box is the request's, the sink
  can be opened, and \<open>COLUMNS\<close> is the request's column count.
\<close>

definition grid_request :: "parameters \<Rightarrow> real \<Rightarrow> real \<Rightarrow> real \<Rightarrow> real \<Rightarrow> int \<Rightarrow> bool" where
  "grid_request params xMin yMin xMax yMax numColumns \<longleftrightarrow>
     (\<exists>source dest_id. INPUT params = Some source \<and> OUTPUT params = Some dest_id \<and>
        map boundingBox (src_features source) =
          [\<lparr>xMinimum = xMin, yMinimum = yMin, xMaximum = xMax, yMaximum = yMax\<rparr>] \<and>
        COLUMNS params = numColumns)"

text \<open>The two points of line 134 and 135 for a request.\<close>

definition request_points :: "real \<Rightarrow> real \<Rightarrow> real \<Rightarrow> real \<Rightarrow> int \<Rightarrow> (real \<times> real) list" where
  "request_points xMin yMin xMax yMax numColumns =
     [(xMin, (yMax + yMin) / 2), (xMin + (xMax - xMin) / of_int numColumns, (yMax + yMin) / 2)]"


subsection \<open>Example inputs\<close>

text \<open>
  A host that never cancels, two distance stubs, and the first scenario of the
  specification: the box from (0, 0) to (10, 4) in two columns.
\<close>

definition never_canceled :: "nat \<Rightarrow> bool" where
  "never_canceled k = False"

definition stub_distance :: "(real \<times> real) list \<Rightarrow> real" where
  "stub_distance points = 0"

definition equator_distance :: "(real \<times> real) list \<Rightarrow> real" where
  "equator_distance points =
     (case points of [(x1, y1), (x2, y2)] \<Rightarrow> 111320 * \<bar>x2 - x1\<bar> | _ \<Rightarrow> 0)"

definition example_source :: feature_source where
  "example_source =
     \<lparr>src_fields = [\<lparr>fname = ''fid'', ftype = QVariant_Int\<rparr>],
      src_features =
        [\<lparr>boundingBox = \<lparr>xMinimum = 0, yMinimum = 0, xMaximum = 10, yMaximum = 4\<rparr>,
          in_attributes = [PyInt 7]\<rparr>]\<rparr>"

definition example_params :: parameters where
  "example_params = \<lparr>INPUT = Some example_source, COLUMNS = 2, OUTPUT = Some ''grid''\<rparr>"







section \<open>Properties\<close>

subsection \<open>The loops\<close>


lemma col_loop_cell_id: "cell_id (col_loop g row cols s) = cell_id s + int (length cols)"
  by (induction cols arbitrary: s) simp_all

lemma col_loop_polls: "polls (col_loop g row cols s) = polls s"
  by (induction cols arbitrary: s) simp_all

lemma col_loop_measured: "measured (col_loop g row cols s) = measured s"
  by (induction cols arbitrary: s) simp_all







subsection \<open>One request\<close>

lemma process_feature_rows:
  assumes "num_cols \<noteq> 0" and "xMaximum (boundingBox feat) \<noteq> xMinimum (boundingBox feat)"
  shows "process_feature measureLine isCanceled flds num_cols feat s =
     (Inr (),
      row_loop isCanceled (feature_grid flds num_cols (boundingBox feat))
        (range_py (feature_rows num_cols (boundingBox feat)))
        (s\<lparr>measured := measured s @
              [([(xMinimum (boundingBox feat),
                  (yMaximum (boundingBox feat) + yMinimum (boundingBox feat)) / 2),
                 (xMinimum (boundingBox feat) +
                    (xMaximum (boundingBox feat) - xMinimum (boundingBox feat)) / of_int num_cols,
                  (yMaximum (boundingBox feat) + yMinimum (boundingBox feat)) / 2)],
                measureLine
                  [(xMinimum (boundingBox feat),
                    (yMaximum (boundingBox feat) + yMinimum (boundingBox feat)) / 2),
                   (xMinimum (boundingBox feat) +
                      (xMaximum (boundingBox feat) - xMinimum (boundingBox feat)) / of_int num_cols,
                    (yMaximum (boundingBox feat) + yMinimum (boundingBox feat)) / 2)])],
            cell_id := 1, current := 0\<rparr>))"
  using assms
  by (simp add: process_feature_def feature_grid_def feature_rows_def Let_def)

lemma request_run:
  assumes "grid_request params xMin yMin xMax yMax numColumns"
    and "numColumns \<noteq> 0" and "xMax \<noteq> xMin"
  shows "\<exists>source dest_id.
     INPUT params = Some source \<and> OUTPUT params = Some dest_id \<and>
     processAlgorithm measureLine isCanceled params =
       (Inr dest_id,
        row_loop isCanceled
          (feature_grid (output_fields source) numColumns
             \<lparr>xMinimum = xMin, yMinimum = yMin, xMaximum = xMax, yMaximum = yMax\<rparr>)
          (range_py (feature_rows numColumns
             \<lparr>xMinimum = xMin, yMinimum = yMin, xMaximum = xMax, yMaximum = yMax\<rparr>))
          (initial_state
             \<lparr>measured := [(request_points xMin yMin xMax yMax numColumns,
                            measureLine (request_points xMin yMin xMax yMax numColumns))],
              cell_id := 1, current := 0\<rparr>))"
proof -
  from assms(1) obtain source dest_id feat where
    src: "INPUT params = Some source" and out: "OUTPUT params = Some dest_id"
    and feats: "src_features source = [feat]"
    and box: "boundingBox feat = \<lparr>xMinimum = xMin, yMinimum = yMin, xMaximum = xMax, yMaximum = yMax\<rparr>"
    and cols: "COLUMNS params = numColumns"
    by (auto simp: grid_request_def map_eq_Cons_conv)
  have nz: "xMaximum (boundingBox feat) \<noteq> xMinimum (boundingBox feat)"
    using assms(3) by (simp add: box)
  show ?thesis
    using src out feats cols
    by (simp add: processAlgorithm_def process_feature_rows [OF assms(2) nz] box
        initial_state_def request_points_def)
qed


subsection \<open>Ranges and attributes\<close>


















lemma col_loop_sink_cong:
  "sink s = sink s' \<Longrightarrow> cell_id s = cell_id s' \<Longrightarrow>
     sink (col_loop g row cols s) = sink (col_loop g row cols s')"
  by (induction cols arbitrary: s s') simp_all

lemma row_loop_sink_cong:
  "sink s = sink s' \<Longrightarrow> cell_id s = cell_id s' \<Longrightarrow> polls s = polls s' \<Longrightarrow>
     sink (row_loop isCanceled g rows s) = sink (row_loop isCanceled g rows s')"
proof (induction rows arbitrary: s s')
  case Nil
  then show ?case by simp
next
  case (Cons row rows)
  let ?t = "col_loop g row (range_py (num_columns g)) (s\<lparr>polls := Suc (polls s)\<rparr>)"
  let ?t' = "col_loop g row (range_py (num_columns g)) (s'\<lparr>polls := Suc (polls s')\<rparr>)"
  have "sink ?t = sink ?t'"
    using Cons.prems by (intro col_loop_sink_cong) simp_all
  moreover have "cell_id ?t = cell_id ?t'" and "polls ?t = polls ?t'"
    using Cons.prems by (simp_all add: col_loop_cell_id col_loop_polls)
  ultimately have "sink (row_loop isCanceled g rows ?t) = sink (row_loop isCanceled g rows ?t')"
    by (rule Cons.IH)
  then show ?case
    using Cons.prems by simp
qed

lemma row_loop_measured: "measured (row_loop isCanceled g rows s) = measured s"
  by (induction rows arbitrary: s) (simp_all add: col_loop_measured)



subsection \<open>Strips of equal width\<close>




subsection \<open>Degenerate grids, and runs over any source\<close>











subsection \<open>The example run\<close>






lemma example_request: "grid_request example_params 0 0 10 4 2"
  by (simp add: grid_request_def example_params_def example_source_def)


subsection \<open>The claims\<close>











text \<open>
  Claim C7. For a valid request the distance service is called exactly once, with the two
  points \<open>(xMin, midLat)\<close> and \<open>(xMin + widthDegrees, midLat)\<close> where
  \<open>midLat = (yMax + yMin) / 2\<close>, and what it returns has no influence on the outcome: with
  any two distance services the run ends the same way and leaves the same features in the
  sink.
\<close>

theorem distance_call_unused:
  assumes "grid_request params xMin yMin xMax yMax numColumns"
    and "xMin < xMax" and "yMin < yMax" and "1 \<le> numColumns"
  shows "let widthDegrees = (xMax - xMin) / of_int numColumns;
             midLat = (yMax + yMin) / 2
         in map fst (measured (snd (processAlgorithm measureLine isCanceled params))) =
              [[(xMin, midLat), (xMin + widthDegrees, midLat)]] \<and>
            fst (processAlgorithm measureLine isCanceled params) =
              fst (processAlgorithm measureLine' isCanceled params) \<and>
            sink (snd (processAlgorithm measureLine isCanceled params)) =
              sink (snd (processAlgorithm measureLine' isCanceled params))"
proof -
  have nz: "numColumns \<noteq> 0" "xMax \<noteq> xMin"
    using assms by simp_all
  from request_run [OF assms(1) nz, of measureLine isCanceled]
    request_run [OF assms(1) nz, of measureLine' isCanceled]
  show ?thesis
    unfolding Let_def
    by (auto simp: row_loop_measured initial_state_def request_points_def
        intro!: row_loop_sink_cong)
qed

text \<open>
  The first scenario of the specification: the call is made with \<open>(0, 2)\<close> and \<open>(5, 2)\<close>, and
  a service answering 0 and one answering the distance along the equator give the same cells.
\<close>

theorem distance_call_unused_witness:
  "map fst (measured (snd (processAlgorithm stub_distance never_canceled example_params))) =
     [[(0, 2), (5, 2)]] \<and>
   sink (snd (processAlgorithm stub_distance never_canceled example_params)) =
     sink (snd (processAlgorithm equator_distance never_canceled example_params))"
  using distance_call_unused [OF example_request, of stub_distance never_canceled equator_distance]
  by (simp add: Let_def)












end
